theory Spec2Isabelle
  imports Complex_Main
begin

section \<open>Python errors and the toolkit's view of a molecule\<close>

text \<open>
  The exceptions the module can raise or let through. \<open>ModuleNotFoundError\<close> is what a
  failed \<^verbatim>\<open>import\<close> raises; \<open>NameError\<close> carries the name that was not bound.
\<close>

datatype py_error =
    ImportError
  | ModuleNotFoundError
  | NameError string
  | TypeError
  | ValueError
  | KeyError
  | IndexError
  | AttributeError

datatype hybridization = SP | SP2 | SP3 | HYB_OTHER

datatype bond_type = SINGLE | DOUBLE | TRIPLE | AROMATIC | BOND_OTHER

datatype bond_stereo = STEREONONE | STEREOANY | STEREOZ | STEREOE | STEREO_OTHER

text \<open>
  The value of the atom property \<^verbatim>\<open>_GasteigerCharge\<close>: a finite number, or one of the
  non-finite readings (nan, inf) the charge computation can leave behind.
\<close>

datatype charge = Finite real | NotFinite

text \<open>
  An RDKit atom, as the queries of the featurizers see it: one field per query
  (\<^verbatim>\<open>GetIdx\<close>, \<^verbatim>\<open>GetSymbol\<close>, \<^verbatim>\<open>GetFormalCharge\<close>, ...). The two properties read with
  \<^verbatim>\<open>GetProp\<close> are optional: \<open>None\<close> is a property that is not set, where
  \<^verbatim>\<open>GetProp\<close> raises \<open>KeyError\<close>.
\<close>

record atom =
  GetIdx :: nat
  GetSymbol :: string
  GetFormalCharge :: int
  GetHybridization :: hybridization
  GetIsAromatic :: bool
  GetTotalDegree :: nat
  GetTotalNumHs :: nat
  CIPCode :: "string option"
  GasteigerCharge :: "charge option"

record bond =
  GetBeginAtomIdx :: nat
  GetEndAtomIdx :: nat
  GetBondType :: bond_type
  IsInRing :: bool
  GetIsConjugated :: bool
  GetStereo :: bond_stereo

text \<open>
  An RDKit molecule: its atoms and its bonds in iteration order (\<^verbatim>\<open>GetAtoms()\<close>,
  \<^verbatim>\<open>GetBonds()\<close>), and the answer of the toolkit's hydrogen-bonding pattern match,
  a list of \<open>(atom index, ''Donor'' | ''Acceptor'')\<close>.
\<close>

record mol =
  GetAtoms :: "atom list"
  GetBonds :: "bond list"
  HBondMatches :: "(nat \<times> string) list"

definition GetAtomWithIdx :: "mol \<Rightarrow> nat \<Rightarrow> py_error + atom" where
  "GetAtomWithIdx m i = (if i < length (GetAtoms m) then Inr (GetAtoms m ! i) else Inl IndexError)"

definition GetProp_GasteigerCharge :: "atom \<Rightarrow> py_error + charge" where
  "GetProp_GasteigerCharge a = (case GasteigerCharge a of None \<Rightarrow> Inl KeyError | Some c \<Rightarrow> Inr c)"

text \<open>
  The RDKit installation. \<^verbatim>\<open>from rdkit.Chem import AllChem\<close> raises
  \<open>ModuleNotFoundError\<close> when the module is not installed. \<open>gasteiger m i\<close> is the charge
  the external Gasteiger algorithm assigns to the atom of index \<open>i\<close> of \<open>m\<close>;
  \<^verbatim>\<open>AllChem.ComputeGasteigerCharges(mol)\<close> writes it to the property
  \<^verbatim>\<open>_GasteigerCharge\<close> of every atom, in place.
\<close>

record rdkit =
  AllChem_installed :: bool
  gasteiger :: "mol \<Rightarrow> nat \<Rightarrow> charge"

definition import_AllChem :: "rdkit \<Rightarrow> py_error + unit" where
  "import_AllChem tk = (if AllChem_installed tk then Inr () else Inl ModuleNotFoundError)"

definition ComputeGasteigerCharges :: "rdkit \<Rightarrow> mol \<Rightarrow> mol" where
  "ComputeGasteigerCharges tk m =
     m\<lparr>GetAtoms := map (\<lambda>a. a\<lparr>GasteigerCharge := Some (gasteiger tk m (GetIdx a))\<rparr>) (GetAtoms m)\<rparr>"

section \<open>The imported feature helpers\<close>

text \<open>
  The module imports its encoders from \<^verbatim>\<open>deepchem.utils.molecule_feature_utils\<close>
  (lines 7 to 20). They are taken as a parameter: one field per imported function, called
  with the arguments the call sites here pass. Each returns a list of numbers, which the
  call sites concatenate. The last two fields are the calls with an explicit allowable set
  and unknown flag that \<^verbatim>\<open>PAGTNAtomFeaturizer\<close> makes.
\<close>

record feature_utils =
  get_atom_type_one_hot :: "atom \<Rightarrow> real list"
  get_atom_formal_charge :: "atom \<Rightarrow> real list"
  get_atom_hybridization_one_hot :: "atom \<Rightarrow> real list"
  construct_hydrogen_bonding_info :: "mol \<Rightarrow> (nat \<times> string) list"
  get_atom_hydrogen_bonding_one_hot :: "atom \<Rightarrow> (nat \<times> string) list \<Rightarrow> real list"
  get_atom_is_in_aromatic_one_hot :: "atom \<Rightarrow> real list"
  get_atom_total_degree_one_hot :: "atom \<Rightarrow> real list"
  get_atom_total_num_Hs_one_hot :: "atom \<Rightarrow> real list"
  get_atom_chirality_one_hot :: "atom \<Rightarrow> real list"
  get_atom_partial_charge :: "atom \<Rightarrow> real list"
  get_bond_type_one_hot :: "bond \<Rightarrow> real list"
  get_bond_is_in_same_ring_one_hot :: "bond \<Rightarrow> real list"
  get_bond_is_conjugated_one_hot :: "bond \<Rightarrow> real list"
  get_bond_stereo_one_hot :: "bond \<Rightarrow> real list"
  get_atom_type_one_hot_of :: "atom \<Rightarrow> string list \<Rightarrow> bool \<Rightarrow> py_error + real list"
  get_atom_total_degree_one_hot_of :: "atom \<Rightarrow> nat \<Rightarrow> bool \<Rightarrow> py_error + real list"

section \<open>The sparse featurizer\<close>

text \<open>
  \<^verbatim>\<open>_construct_atom_feature\<close> (lines 23 to 66): seven blocks concatenated in a fixed
  order, then the chirality block and the partial charge when asked for.
\<close>

definition construct_atom_feature ::
  "feature_utils \<Rightarrow> atom \<Rightarrow> (nat \<times> string) list \<Rightarrow> bool \<Rightarrow> bool \<Rightarrow> real list" where
  "construct_atom_feature u atom h_bond_infos use_chirality use_partial_charge =
     (let atom_type = get_atom_type_one_hot u atom;
          formal_charge = get_atom_formal_charge u atom;
          hybridization = get_atom_hybridization_one_hot u atom;
          acceptor_donor = get_atom_hydrogen_bonding_one_hot u atom h_bond_infos;
          aromatic = get_atom_is_in_aromatic_one_hot u atom;
          degree = get_atom_total_degree_one_hot u atom;
          total_num_Hs = get_atom_total_num_Hs_one_hot u atom;
          atom_feat = atom_type @ formal_charge @ hybridization @ acceptor_donor @ aromatic
                        @ degree @ total_num_Hs;
          atom_feat = (if use_chirality then atom_feat @ get_atom_chirality_one_hot u atom
                       else atom_feat);
          atom_feat = (if use_partial_charge then atom_feat @ get_atom_partial_charge u atom
                       else atom_feat)
      in atom_feat)"

text \<open>\<^verbatim>\<open>_construct_bond_feature\<close> (lines 69 to 86).\<close>

definition construct_bond_feature :: "feature_utils \<Rightarrow> bond \<Rightarrow> real list" where
  "construct_bond_feature u bond =
     (let bond_type = get_bond_type_one_hot u bond;
          same_ring = get_bond_is_in_same_ring_one_hot u bond;
          conjugated = get_bond_is_conjugated_one_hot u bond;
          stereo = get_bond_stereo_one_hot u bond
      in bond_type @ same_ring @ conjugated @ stereo)"

text \<open>
  \<^verbatim>\<open>np.asarray(rows, dtype=float)\<close> on a list of rows: a matrix when the rows have one
  length (an empty list gives an empty array), \<open>ValueError\<close> on ragged rows.
\<close>

definition np_asarray :: "'a list list \<Rightarrow> py_error + 'a list list" where
  "np_asarray rows =
     (case rows of
        [] \<Rightarrow> Inr []
      | r # rs \<Rightarrow> if list_all (\<lambda>x. length x = length r) rs then Inr rows else Inl ValueError)"

text \<open>
  Modelled from the spec: the container \<^verbatim>\<open>GraphData\<close> of
  \<^verbatim>\<open>deepchem.feat.graph_data\<close>, which is not among the sources. The spec gives it as a
  node-feature matrix, a 2 by E integer edge index and an optional edge-feature matrix.
  The type of the node features is left open: the sparse featurizer passes a matrix, the
  path-aware one a single vector.
\<close>

record 'n GraphData =
  node_features :: "'n"
  edge_index :: "nat list list"
  edge_features :: "real list list option"

text \<open>The configuration set by \<^verbatim>\<open>MolGraphConvFeaturizer.__init__\<close> (lines 143 to 163).\<close>

record MolGraphConvFeaturizer =
  use_edges :: bool
  use_chirality :: bool
  use_partial_charge :: bool

definition MolGraphConvFeaturizer_init :: "bool \<Rightarrow> bool \<Rightarrow> bool \<Rightarrow> MolGraphConvFeaturizer" where
  "MolGraphConvFeaturizer_init ue uc upc =
     \<lparr>use_edges = ue, use_chirality = uc, use_partial_charge = upc\<rparr>"

text \<open>
  The steps of a run that the ordering properties speak about, in program order: a call of
  \<^verbatim>\<open>ComputeGasteigerCharges\<close>, and the encoding of the atom at a position of
  \<^verbatim>\<open>GetAtoms()\<close>.
\<close>

datatype event = ComputeCharges | EncodeAtom nat

text \<open>
  Lines 178 to 187. The probe reads \<^verbatim>\<open>_GasteigerCharge\<close> of atom 0; the bare
  \<^verbatim>\<open>except\<close> catches whatever it raises (no atom 0, or the property not set). Then the
  import is tried and the charges are computed; \<open>ModuleNotFoundError\<close> becomes
  \<open>ImportError\<close>. The molecule is changed in place, so the new molecule is returned.
\<close>

definition probe_charges :: "mol \<Rightarrow> py_error + charge" where
  "probe_charges m =
     (case GetAtomWithIdx m 0 of Inl e \<Rightarrow> Inl e | Inr a \<Rightarrow> GetProp_GasteigerCharge a)"

definition prepare_charges ::
  "rdkit \<Rightarrow> MolGraphConvFeaturizer \<Rightarrow> mol \<Rightarrow> py_error + (mol \<times> event list)" where
  "prepare_charges tk self m =
     (if use_partial_charge self then
        (case probe_charges m of
           Inr _ \<Rightarrow> Inr (m, [])
         | Inl _ \<Rightarrow>
             (case import_AllChem tk of
                Inl e \<Rightarrow> (if e = ModuleNotFoundError then Inl ImportError else Inl e)
              | Inr _ \<Rightarrow> Inr (ComputeGasteigerCharges tk m, [ComputeCharges])))
      else Inr (m, []))"

text \<open>Lines 201 to 206: the loop over the bonds that fills \<open>src\<close> and \<open>dest\<close>.\<close>

fun edge_loop :: "bond list \<Rightarrow> nat list \<Rightarrow> nat list \<Rightarrow> nat list \<times> nat list" where
  "edge_loop [] src dest = (src, dest)"
| "edge_loop (bond # bonds) src dest =
     (let start = GetBeginAtomIdx bond; end = GetEndAtomIdx bond
      in edge_loop bonds (src @ [start, end]) (dest @ [end, start]))"

text \<open>Lines 211 to 213: the loop that appends every bond's feature vector twice.\<close>

fun bond_feature_loop :: "feature_utils \<Rightarrow> bond list \<Rightarrow> real list list \<Rightarrow> real list list" where
  "bond_feature_loop u [] features = features"
| "bond_feature_loop u (bond # bonds) features =
     bond_feature_loop u bonds (features @ replicate 2 (construct_bond_feature u bond))"

text \<open>
  Lines 189 to 219, on the molecule as the charge step left it: the node features, the
  edge index, and the edge features when \<open>use_edges\<close> is set.
\<close>

definition build_graph :: "feature_utils \<Rightarrow> MolGraphConvFeaturizer \<Rightarrow> mol \<Rightarrow> py_error + real list list GraphData" where
  "build_graph u self m =
     (let h_bond_infos = construct_hydrogen_bonding_info u m
      in case np_asarray
              (map (\<lambda>atom. construct_atom_feature u atom h_bond_infos (use_chirality self)
                       (use_partial_charge self)) (GetAtoms m)) of
           Inl e \<Rightarrow> Inl e
         | Inr atom_features \<Rightarrow>
             (case edge_loop (GetBonds m) [] [] of
                (src, dest) \<Rightarrow>
                  (case (if use_edges self
                         then (case np_asarray (bond_feature_loop u (GetBonds m) []) of
                                 Inl e \<Rightarrow> Inl e | Inr fs \<Rightarrow> Inr (Some fs))
                         else Inr None) of
                     Inl e \<Rightarrow> Inl e
                   | Inr bond_features \<Rightarrow>
                       Inr \<lparr>node_features = atom_features, edge_index = [src, dest],
                            edge_features = bond_features\<rparr>)))"

text \<open>
  \<^verbatim>\<open>MolGraphConvFeaturizer._featurize\<close> (lines 165 to 219). The result is what the call
  returns or raises, the molecule as the call leaves it, and the steps it took.
\<close>

definition featurize ::
  "rdkit \<Rightarrow> feature_utils \<Rightarrow> MolGraphConvFeaturizer \<Rightarrow> mol \<Rightarrow>
     (py_error + real list list GraphData) \<times> mol \<times> event list" where
  "featurize tk u self m =
     (case prepare_charges tk self m of
        Inl e \<Rightarrow> (Inl e, m, [])
      | Inr (m', evs) \<Rightarrow>
          (build_graph u self m', m', evs @ map EncodeAtom [0..<length (GetAtoms m')]))"

section \<open>The path-aware featurizer\<close>

text \<open>Sequencing of calls that can raise: the first error ends the computation.\<close>

definition bind_err :: "py_error + 'a \<Rightarrow> ('a \<Rightarrow> py_error + 'b) \<Rightarrow> py_error + 'b" where
  "bind_err x f = (case x of Inl e \<Rightarrow> Inl e | Inr v \<Rightarrow> f v)"

fun sequence_err :: "(py_error + 'a) list \<Rightarrow> py_error + 'a list" where
  "sequence_err [] = Inr []"
| "sequence_err (x # xs) =
     (case x of
        Inl e \<Rightarrow> Inl e
      | Inr v \<Rightarrow> (case sequence_err xs of Inl e \<Rightarrow> Inl e | Inr vs \<Rightarrow> Inr (v # vs)))"

text \<open>
  What \<^verbatim>\<open>__init__\<close> imports from DGL-LifeSci and uses (lines 231 to 239): the three bond
  encoders given to \<^verbatim>\<open>ConcatFeaturizer\<close>. They are external, so they are parameters;
  their argument can be \<open>None\<close>, which \<^verbatim>\<open>bond_features\<close> passes for a missing bond.
\<close>

record dgllife =
  bond_type_one_hot :: "bond option \<Rightarrow> py_error + real list"
  bond_is_conjugated :: "bond option \<Rightarrow> py_error + real list"
  bond_is_in_ring :: "bond option \<Rightarrow> py_error + real list"

text \<open>\<^verbatim>\<open>ConcatFeaturizer(func_list)\<close>: the results of the functions, in order, chained.\<close>

definition ConcatFeaturizer :: "('x \<Rightarrow> py_error + real list) list \<Rightarrow> 'x \<Rightarrow> py_error + real list" where
  "ConcatFeaturizer func_list x =
     bind_err (sequence_err (map (\<lambda>func. func x) func_list)) (\<lambda>rs. Inr (concat rs))"

text \<open>The attributes \<^verbatim>\<open>__init__\<close> sets (lines 243 to 256).\<close>

record PAGTNFeaturizer =
  SYMBOLS :: "string list"
  RING_TYPES :: "(nat \<times> bool) list"
  bond_featurizer :: "bond option \<Rightarrow> py_error + real list"
  max_length :: nat

definition ordered_pair :: "nat \<Rightarrow> nat \<Rightarrow> nat \<times> nat" where
  "ordered_pair a b = (if a < b then (a, b) else (b, a))"

text \<open>
  \<^verbatim>\<open>PAGTNFeaturizer.__init__(self, max_length=5)\<close> (lines 229 to 256). The imports are
  tried first, and any failure is raised as \<open>ImportError\<close>; \<open>None\<close> stands for an
  installation where one of them fails. The last statement is
  \<^verbatim>\<open>self.max_length = 5\<close>.
\<close>

definition PAGTNFeaturizer_init :: "dgllife option \<Rightarrow> nat \<Rightarrow> py_error + PAGTNFeaturizer" where
  "PAGTNFeaturizer_init installed max_length_arg =
     (case installed of
        None \<Rightarrow> Inl ImportError
      | Some lib \<Rightarrow>
          Inr \<lparr>SYMBOLS =
                 [''C'', ''N'', ''O'', ''S'', ''F'', ''Si'', ''P'', ''Cl'', ''Br'', ''Mg'', ''Na'',
                  ''Ca'', ''Fe'', ''As'', ''Al'', ''I'', ''B'', ''V'', ''K'', ''Tl'', ''Yb'', ''Sb'',
                  ''Sn'', ''Ag'', ''Pd'', ''Co'', ''Se'', ''Ti'', ''Zn'', ''H'', ''Li'', ''Ge'',
                  ''Cu'', ''Au'', ''Ni'', ''Cd'', ''In'', ''Mn'', ''Zr'', ''Cr'', ''Pt'', ''Hg'',
                  ''Pb'', ''W'', ''Ru'', ''Nb'', ''Re'', ''Te'', ''Rh'', ''Tc'', ''Ba'', ''Bi'',
                  ''Hf'', ''Mo'', ''U'', ''Sm'', ''Os'', ''Ir'', ''Ce'', ''Gd'', ''Ga'', ''Cs'',
                  ''*'', ''UNK''],
               RING_TYPES = [(5, False), (5, True), (6, False), (6, True)],
               bond_featurizer =
                 ConcatFeaturizer [bond_type_one_hot lib, bond_is_conjugated lib, bond_is_in_ring lib],
               max_length = 5\<rparr>)"

text \<open>
  The argument that line 312 gives \<^verbatim>\<open>one_hot_encoding\<close> is the whole (empty) list
  \<^verbatim>\<open>ring_info\<close>, where line 305 gives it one ring type.
\<close>

datatype ring_arg = OneRing "nat \<times> bool" | RingInfo "(nat \<times> bool) list"

text \<open>
  The two functions the method \<^verbatim>\<open>PAGTNBondFeaturizer\<close> reaches through the name
  \<^verbatim>\<open>utils\<close>: dictionaries keyed by a pair of atom indices.
\<close>

record utils_module =
  compute_all_pairs_shortest_path :: "mol \<Rightarrow> py_error + (nat \<times> nat \<rightharpoonup> nat list)"
  compute_pairwise_ring_info :: "mol \<Rightarrow> py_error + (nat \<times> nat \<rightharpoonup> (nat \<times> bool) list)"

text \<open>
  The names that the methods of \<^verbatim>\<open>PAGTNFeaturizer\<close> read as globals although no
  parameter or local of the method has that name. \<open>None\<close> is a name the module does
  not bind, and reading it raises \<open>NameError\<close>.
\<close>

record globals =
  g_self :: "PAGTNFeaturizer option"
  g_utils :: "utils_module option"
  g_one_hot_encoding :: "(ring_arg \<Rightarrow> (nat \<times> bool) list \<Rightarrow> py_error + bool list) option"
  g_atom_explicit_valence_one_hot :: "(atom \<Rightarrow> nat list \<Rightarrow> bool \<Rightarrow> py_error + real list) option"
  g_get_atom_implicit_valence_one_hot :: "(atom \<Rightarrow> nat list \<Rightarrow> bool \<Rightarrow> py_error + real list) option"

text \<open>
  The module as written binds, at top level, the names of its imports (lines 1 to 20 and
  222 to 224), its two functions and its two classes. The names that
  \<^verbatim>\<open>__init__\<close> imports (lines 232 to 239) are locals of \<^verbatim>\<open>__init__\<close>. None of the
  five names above is bound.
\<close>

definition module_globals :: globals where
  "module_globals =
     \<lparr>g_self = None, g_utils = None, g_one_hot_encoding = None,
      g_atom_explicit_valence_one_hot = None, g_get_atom_implicit_valence_one_hot = None\<rparr>"

definition lookup_global :: "string \<Rightarrow> 'a option \<Rightarrow> py_error + 'a" where
  "lookup_global name binding = (case binding of None \<Rightarrow> Inl (NameError name) | Some v \<Rightarrow> Inr v)"

text \<open>The objects that are passed as positional arguments in this module.\<close>

datatype pyobj = PyFeaturizer PAGTNFeaturizer | PyMol mol | PyAtom atom

definition as_atom :: "pyobj \<Rightarrow> py_error + atom" where
  "as_atom x = (case x of PyAtom a \<Rightarrow> Inr a | _ \<Rightarrow> Inl AttributeError)"

text \<open>
  \<^verbatim>\<open>def PAGTNAtomFeaturizer(atom)\<close> (lines 258 to 268): a function of one positional
  parameter, so a call with any other number of arguments raises \<open>TypeError\<close>. The body
  reads \<^verbatim>\<open>self\<close>, which is not a parameter, before the first encoder is called; an
  argument that is not an atom fails inside that encoder.
\<close>

fun PAGTNAtomFeaturizer :: "globals \<Rightarrow> feature_utils \<Rightarrow> pyobj list \<Rightarrow> py_error + real list" where
  "PAGTNAtomFeaturizer g u [x] =
     bind_err (lookup_global ''self'' (g_self g)) (\<lambda>self.
     bind_err (as_atom x) (\<lambda>atom.
     bind_err (get_atom_type_one_hot_of u atom (SYMBOLS self) False) (\<lambda>atom_type.
     let formal_charge = get_atom_formal_charge u atom in
     bind_err (get_atom_total_degree_one_hot_of u atom 10 False) (\<lambda>degree.
     bind_err (lookup_global ''atom_explicit_valence_one_hot'' (g_atom_explicit_valence_one_hot g))
       (\<lambda>atom_explicit_valence_one_hot.
     bind_err (atom_explicit_valence_one_hot atom [0..<7] False) (\<lambda>exp_valence.
     bind_err (lookup_global ''get_atom_implicit_valence_one_hot''
                 (g_get_atom_implicit_valence_one_hot g))
       (\<lambda>get_atom_implicit_valence_one_hot.
     bind_err (get_atom_implicit_valence_one_hot atom [0..<6] False) (\<lambda>imp_valence.
     let armoticity = get_atom_is_in_aromatic_one_hot u atom in
     Inr (atom_type @ formal_charge @ degree @ exp_valence @ imp_valence @ armoticity)))))))))"
| "PAGTNAtomFeaturizer g u args = Inl TypeError"

text \<open>
  \<^verbatim>\<open>mol.GetBondBetweenAtoms(a, b)\<close>: the bond that joins the two atoms, in either
  direction, or \<open>None\<close>.
\<close>

definition GetBondBetweenAtoms :: "mol \<Rightarrow> nat \<Rightarrow> nat \<Rightarrow> bond option" where
  "GetBondBetweenAtoms m a b =
     find (\<lambda>bd. (GetBeginAtomIdx bd = a \<and> GetEndAtomIdx bd = b) \<or>
                (GetBeginAtomIdx bd = b \<and> GetEndAtomIdx bd = a)) (GetBonds m)"

text \<open>
  Lines 298 to 301: the slot of the position indicator that is set, and the indicator
  itself, for a path of \<open>path_length\<close> atoms (\<^verbatim>\<open>path_length = len(path_atoms)\<close>).
\<close>

definition position_index :: "nat \<Rightarrow> nat \<Rightarrow> nat" where
  "position_index max_len path_length =
     (if path_length + 1 > max_len then max_len + 1 else path_length)"

definition position_feature :: "nat \<Rightarrow> nat \<Rightarrow> real list" where
  "position_feature max_len path_length =
     (replicate (max_len + 2) 0)[position_index max_len path_length := 1]"

text \<open>\<^verbatim>\<open>np.any(rfeat, axis=0).tolist()\<close> on a non-empty list of rows: the column-wise or.\<close>

definition np_any_axis0 :: "bool list list \<Rightarrow> py_error + bool list" where
  "np_any_axis0 rows =
     bind_err (np_asarray rows)
       (\<lambda>rs. Inr (map (\<lambda>c. list_ex (\<lambda>r. r ! c) rs) [0..<length (hd rs)]))"

text \<open>
  Lines 303 to 312: the ring block. Both branches read the global
  \<^verbatim>\<open>one_hot_encoding\<close>; the first is entered with at least one ring, so it reads the name
  too.
\<close>

definition ring_features :: "globals \<Rightarrow> PAGTNFeaturizer \<Rightarrow> (nat \<times> bool) list \<Rightarrow> py_error + bool list" where
  "ring_features g self ring_info =
     (if ring_info \<noteq> [] then
        bind_err (lookup_global ''one_hot_encoding'' (g_one_hot_encoding g)) (\<lambda>one_hot_encoding.
        bind_err (sequence_err (map (\<lambda>r. one_hot_encoding (OneRing r) (RING_TYPES self)) ring_info))
          (\<lambda>rfeat.
        bind_err (np_any_axis0 rfeat) (\<lambda>anys. Inr (True # anys))))
      else
        bind_err (lookup_global ''one_hot_encoding'' (g_one_hot_encoding g)) (\<lambda>one_hot_encoding.
        bind_err (one_hot_encoding (RingInfo ring_info) (RING_TYPES self)) (\<lambda>enc.
        Inr (False # enc))))"

text \<open>
  \<^verbatim>\<open>bond_features(self, mol, path_atoms, ring_info)\<close> (lines 270 to 313). A missing
  bond only draws a warning (line 289), so \<open>None\<close> is appended and later given to the
  bond encoder. The blocks are concatenated; the booleans of the ring block become 0 and 1.
\<close>

definition bond_features ::
  "globals \<Rightarrow> PAGTNFeaturizer \<Rightarrow> mol \<Rightarrow> nat list \<Rightarrow> (nat \<times> bool) list \<Rightarrow> py_error + real list" where
  "bond_features g self m path_atoms ring_info =
     (let path_length = length path_atoms;
          path_bonds = map (\<lambda>path_idx. GetBondBetweenAtoms m (path_atoms ! path_idx)
                                         (path_atoms ! (path_idx + 1)))
                         [0..<path_length - 1]
      in bind_err (sequence_err
                     (map (\<lambda>path_idx. if path_idx < length path_bonds
                                       then bond_featurizer self (path_bonds ! path_idx)
                                       else Inr [0, 0, 0, 0, 0, 0])
                        [0..<max_length self])) (\<lambda>features.
         let position = position_feature (max_length self) path_length in
         bind_err (ring_features g self ring_info) (\<lambda>rfeat.
         Inr (concat features @ position @ map of_bool rfeat))))"

text \<open>
  Lines 337 to 346: the double loop over the atom indices, as one loop over the pairs in
  row-major order, with the three lists it appends to.
\<close>

fun pair_loop ::
  "globals \<Rightarrow> PAGTNFeaturizer \<Rightarrow> mol \<Rightarrow> (nat \<times> nat \<rightharpoonup> nat list) \<Rightarrow>
     (nat \<times> nat \<rightharpoonup> (nat \<times> bool) list) \<Rightarrow> (nat \<times> nat) list \<Rightarrow>
     nat list \<Rightarrow> nat list \<Rightarrow> real list list \<Rightarrow>
     py_error + (nat list \<times> nat list \<times> real list list)" where
  "pair_loop g self m paths_dict rings_dict [] src dest feats = Inr (src, dest, feats)"
| "pair_loop g self m paths_dict rings_dict ((i, j) # pairs) src dest feats =
     (case paths_dict (i, j) of
        None \<Rightarrow>
          pair_loop g self m paths_dict rings_dict pairs (src @ [i]) (dest @ [j])
            (feats @ [replicate (7 * max_length self + 7) 0])
      | Some path \<Rightarrow>
          (let ring_info = (case rings_dict (ordered_pair i j) of None \<Rightarrow> [] | Some rs \<Rightarrow> rs)
           in case bond_features g self m path ring_info of
                Inl e \<Rightarrow> Inl e
              | Inr f \<Rightarrow>
                  pair_loop g self m paths_dict rings_dict pairs (src @ [i]) (dest @ [j])
                    (feats @ [f])))"

text \<open>
  \<^verbatim>\<open>PAGTNBondFeaturizer(self, mol)\<close> (lines 315 to 348). The name \<^verbatim>\<open>utils\<close> is read at
  line 330, before the loop.
\<close>

definition PAGTNBondFeaturizer ::
  "globals \<Rightarrow> PAGTNFeaturizer \<Rightarrow> mol \<Rightarrow> py_error + (nat list list \<times> real list list)" where
  "PAGTNBondFeaturizer g self m =
     (let n_atoms = length (GetAtoms m)
      in bind_err (lookup_global ''utils'' (g_utils g)) (\<lambda>utils.
         bind_err (compute_all_pairs_shortest_path utils m) (\<lambda>paths_dict.
         bind_err (lookup_global ''utils'' (g_utils g)) (\<lambda>utils.
         bind_err (compute_pairwise_ring_info utils m) (\<lambda>rings_dict.
         bind_err (pair_loop g self m paths_dict rings_dict
                     (List.product [0..<n_atoms] [0..<n_atoms]) [] [] [])
           (\<lambda>(src, dest, feats).
         bind_err (np_asarray feats) (\<lambda>feats_array.
         Inr ([src, dest], feats_array))))))))"

text \<open>
  \<^verbatim>\<open>PAGTNFeaturizer._featurize(self, mol)\<close> (lines 350 to 354).
  \<^verbatim>\<open>self.PAGTNAtomFeaturizer(mol)\<close> calls the function through the instance, so the
  instance is passed as the first positional argument and the molecule as the second.
\<close>

definition PAGTN_featurize ::
  "globals \<Rightarrow> feature_utils \<Rightarrow> PAGTNFeaturizer \<Rightarrow> mol \<Rightarrow> py_error + real list GraphData" where
  "PAGTN_featurize g u self m =
     bind_err (PAGTNAtomFeaturizer g u [PyFeaturizer self, PyMol m]) (\<lambda>node_features.
     bind_err (PAGTNBondFeaturizer g self m) (\<lambda>(edge_index, edge_features).
     Inr \<lparr>node_features = node_features, edge_index = edge_index,
          edge_features = Some edge_features\<rparr>))"

section \<open>The encoders of the helper module, from the spec\<close>

text \<open>
  Modelled from the spec: the categorical encoder behind the helpers of
  \<^verbatim>\<open>deepchem.utils.molecule_feature_utils\<close>, which is not among the sources. The spec
  gives every categorical encoder as a total function from a value to a fixed-width one-hot
  vector over an ordered vocabulary, with a trailing "other" slot where the block has one.
\<close>

definition one_hot_encode :: "'a \<Rightarrow> 'a list \<Rightarrow> bool \<Rightarrow> real list" where
  "one_hot_encode val allowable_set include_unknown_set =
     map (\<lambda>s. if s = val then 1 else 0) allowable_set @
     (if include_unknown_set then [if val \<in> set allowable_set then 0 else 1] else [])"

text \<open>
  Modelled from the spec: the atom encoders of \<^verbatim>\<open>molecule_feature_utils\<close>. The blocks
  are those of the spec's atom encoder and of the class docstring (lines 97 to 108): the
  type over nine symbols and "other"; the formal charge; the hybridization over sp, sp2,
  sp3; donor and acceptor flags looked up in the role list (default neither); the aromatic
  flag; the degree over 0 to 5 and "other"; the hydrogen count over 0 to 4 and "other";
  the chirality over R and S; the partial charge with a non-finite or missing value mapped
  to 0.
\<close>

definition spec_atom_type_one_hot :: "atom \<Rightarrow> real list" where
  "spec_atom_type_one_hot a =
     one_hot_encode (GetSymbol a) [''C'', ''N'', ''O'', ''F'', ''P'', ''S'', ''Cl'', ''Br'', ''I''] True"

definition spec_atom_formal_charge :: "atom \<Rightarrow> real list" where
  "spec_atom_formal_charge a = [of_int (GetFormalCharge a)]"

definition spec_atom_hybridization_one_hot :: "atom \<Rightarrow> real list" where
  "spec_atom_hybridization_one_hot a = one_hot_encode (GetHybridization a) [SP, SP2, SP3] False"

definition spec_atom_hydrogen_bonding_one_hot :: "atom \<Rightarrow> (nat \<times> string) list \<Rightarrow> real list" where
  "spec_atom_hydrogen_bonding_one_hot a infos =
     [of_bool ((GetIdx a, ''Donor'') \<in> set infos),
      of_bool ((GetIdx a, ''Acceptor'') \<in> set infos)]"

definition spec_atom_is_in_aromatic_one_hot :: "atom \<Rightarrow> real list" where
  "spec_atom_is_in_aromatic_one_hot a = [of_bool (GetIsAromatic a)]"

definition spec_atom_total_degree_one_hot :: "atom \<Rightarrow> real list" where
  "spec_atom_total_degree_one_hot a = one_hot_encode (GetTotalDegree a) [0, 1, 2, 3, 4, 5] True"

definition spec_atom_total_num_Hs_one_hot :: "atom \<Rightarrow> real list" where
  "spec_atom_total_num_Hs_one_hot a = one_hot_encode (GetTotalNumHs a) [0, 1, 2, 3, 4] True"

definition spec_atom_chirality_one_hot :: "atom \<Rightarrow> real list" where
  "spec_atom_chirality_one_hot a = one_hot_encode (CIPCode a) [Some ''R'', Some ''S''] False"

definition spec_atom_partial_charge :: "atom \<Rightarrow> real list" where
  "spec_atom_partial_charge a = (case GasteigerCharge a of Some (Finite c) \<Rightarrow> [c] | _ \<Rightarrow> [0])"

text \<open>
  Modelled from the spec: the bond encoders of \<^verbatim>\<open>molecule_feature_utils\<close>, with the
  blocks of the class docstring (lines 110 to 116), whose widths add up to the 11 it
  states: the bond type over single, double, triple, aromatic; the ring flag; the
  conjugation flag; the stereo tag over four descriptors and "other".
\<close>

definition spec_bond_type_one_hot :: "bond \<Rightarrow> real list" where
  "spec_bond_type_one_hot b = one_hot_encode (GetBondType b) [SINGLE, DOUBLE, TRIPLE, AROMATIC] False"

definition spec_bond_stereo_one_hot :: "bond \<Rightarrow> real list" where
  "spec_bond_stereo_one_hot b =
     one_hot_encode (GetStereo b) [STEREONONE, STEREOANY, STEREOZ, STEREOE] True"

text \<open>
  Modelled from the spec: the helper module \<^verbatim>\<open>deepchem.utils.molecule_feature_utils\<close> as
  a whole, from the encoders above. The role list is the toolkit's pattern match. The spec
  says nothing of a degree encoder that is given a number for its vocabulary, as line 261
  does; it is taken to raise.
\<close>

definition molecule_feature_utils :: feature_utils where
  "molecule_feature_utils =
     \<lparr>get_atom_type_one_hot = spec_atom_type_one_hot,
      get_atom_formal_charge = spec_atom_formal_charge,
      get_atom_hybridization_one_hot = spec_atom_hybridization_one_hot,
      construct_hydrogen_bonding_info = HBondMatches,
      get_atom_hydrogen_bonding_one_hot = spec_atom_hydrogen_bonding_one_hot,
      get_atom_is_in_aromatic_one_hot = spec_atom_is_in_aromatic_one_hot,
      get_atom_total_degree_one_hot = spec_atom_total_degree_one_hot,
      get_atom_total_num_Hs_one_hot = spec_atom_total_num_Hs_one_hot,
      get_atom_chirality_one_hot = spec_atom_chirality_one_hot,
      get_atom_partial_charge = spec_atom_partial_charge,
      get_bond_type_one_hot = spec_bond_type_one_hot,
      get_bond_is_in_same_ring_one_hot = (\<lambda>b. [of_bool (IsInRing b)]),
      get_bond_is_conjugated_one_hot = (\<lambda>b. [of_bool (GetIsConjugated b)]),
      get_bond_stereo_one_hot = spec_bond_stereo_one_hot,
      get_atom_type_one_hot_of = (\<lambda>a syms unk. Inr (one_hot_encode (GetSymbol a) syms unk)),
      get_atom_total_degree_one_hot_of = (\<lambda>a n unk. Inl TypeError)\<rparr>"

section \<open>Example inputs\<close>

text \<open>
  Cyclobutane, \<^verbatim>\<open>C1CCC1\<close>, the first molecule of the class docstring (line 123): four
  ring carbons with two hydrogens each, four single ring bonds, no charges computed.
\<close>

definition ring_carbon :: "nat \<Rightarrow> atom" where
  "ring_carbon i =
     \<lparr>GetIdx = i, GetSymbol = ''C'', GetFormalCharge = 0, GetHybridization = SP3,
      GetIsAromatic = False, GetTotalDegree = 4, GetTotalNumHs = 2, CIPCode = None,
      GasteigerCharge = None\<rparr>"

definition ring_bond :: "nat \<Rightarrow> nat \<Rightarrow> bond" where
  "ring_bond a b =
     \<lparr>GetBeginAtomIdx = a, GetEndAtomIdx = b, GetBondType = SINGLE, IsInRing = True,
      GetIsConjugated = False, GetStereo = STEREONONE\<rparr>"

definition cyclobutane :: mol where
  "cyclobutane =
     \<lparr>GetAtoms = [ring_carbon 0, ring_carbon 1, ring_carbon 2, ring_carbon 3],
      GetBonds = [ring_bond 0 1, ring_bond 1 2, ring_bond 2 3, ring_bond 3 0],
      HBondMatches = []\<rparr>"

text \<open>Two methane molecules in one input, \<^verbatim>\<open>C.C\<close>: two atoms and no bond.\<close>

definition methane_carbon :: "nat \<Rightarrow> atom" where
  "methane_carbon i =
     \<lparr>GetIdx = i, GetSymbol = ''C'', GetFormalCharge = 0, GetHybridization = SP3,
      GetIsAromatic = False, GetTotalDegree = 4, GetTotalNumHs = 4, CIPCode = None,
      GasteigerCharge = None\<rparr>"

definition two_methanes :: mol where
  "two_methanes =
     \<lparr>GetAtoms = [methane_carbon 0, methane_carbon 1], GetBonds = [], HBondMatches = []\<rparr>"

text \<open>Ethane, \<^verbatim>\<open>CC\<close>: two carbons joined by one single bond that is in no ring.\<close>

definition ethane :: mol where
  "ethane =
     \<lparr>GetAtoms = [methane_carbon 0\<lparr>GetTotalNumHs := 3\<rparr>, methane_carbon 1\<lparr>GetTotalNumHs := 3\<rparr>],
      GetBonds = [\<lparr>GetBeginAtomIdx = 0, GetEndAtomIdx = 1, GetBondType = SINGLE,
                   IsInRing = False, GetIsConjugated = False, GetStereo = STEREONONE\<rparr>],
      HBondMatches = []\<rparr>"

text \<open>
  Two RDKit installations, with and without the module \<^verbatim>\<open>AllChem\<close>; the charge
  algorithm of the example gives every atom the charge 0.
\<close>

definition rdkit_full :: rdkit where
  "rdkit_full = \<lparr>AllChem_installed = True, gasteiger = (\<lambda>m i. Finite 0)\<rparr>"

definition rdkit_without_AllChem :: rdkit where
  "rdkit_without_AllChem = \<lparr>AllChem_installed = False, gasteiger = (\<lambda>m i. Finite 0)\<rparr>"

text \<open>
  A DGL-LifeSci installation for the examples: the bond type over single, double, triple
  and aromatic, the conjugation flag and the ring flag; an argument that is not a bond
  raises.
\<close>

definition dgllife_example :: dgllife where
  "dgllife_example =
     \<lparr>bond_type_one_hot =
        (\<lambda>b. case b of None \<Rightarrow> Inl AttributeError
               | Some bd \<Rightarrow> Inr (map (\<lambda>t. of_bool (GetBondType bd = t)) [SINGLE, DOUBLE, TRIPLE, AROMATIC])),
      bond_is_conjugated =
        (\<lambda>b. case b of None \<Rightarrow> Inl AttributeError | Some bd \<Rightarrow> Inr [of_bool (GetIsConjugated bd)]),
      bond_is_in_ring =
        (\<lambda>b. case b of None \<Rightarrow> Inl AttributeError | Some bd \<Rightarrow> Inr [of_bool (IsInRing bd)])\<rparr>"

section \<open>Lemmas on the loops and the array conversions\<close>

lemma edge_loop_eq:
  "edge_loop bs src dest =
     (src @ concat (map (\<lambda>b. [GetBeginAtomIdx b, GetEndAtomIdx b]) bs),
      dest @ concat (map (\<lambda>b. [GetEndAtomIdx b, GetBeginAtomIdx b]) bs))"
  by (induction bs arbitrary: src dest) (simp_all add: Let_def)

lemma bond_feature_loop_eq:
  "bond_feature_loop u bs features =
     features @ concat (map (\<lambda>b. [construct_bond_feature u b, construct_bond_feature u b]) bs)"
  by (induction bs arbitrary: features) (simp_all add: numeral_2_eq_2)

lemma length_concat_pairs: "length (concat (map (\<lambda>b. [f b, h b]) bs)) = 2 * length bs"
  by (induction bs) simp_all

lemma concat_pairs_even:
  "k < length bs \<Longrightarrow> concat (map (\<lambda>b. [f b, h b]) bs) ! (2 * k) = f (bs ! k)"
proof (induction bs arbitrary: k)
  case Nil
  then show ?case by simp
next
  case (Cons b bs)
  show ?case
  proof (cases k)
    case 0
    then show ?thesis by simp
  next
    case (Suc j)
    with Cons show ?thesis by simp
  qed
qed

lemma concat_pairs_odd:
  "k < length bs \<Longrightarrow> concat (map (\<lambda>b. [f b, h b]) bs) ! Suc (2 * k) = h (bs ! k)"
proof (induction bs arbitrary: k)
  case Nil
  then show ?case by simp
next
  case (Cons b bs)
  show ?case
  proof (cases k)
    case 0
    then show ?thesis by simp
  next
    case (Suc j)
    with Cons show ?thesis by simp
  qed
qed

lemma np_asarray_Inr: "np_asarray rows = Inr rs \<Longrightarrow> rs = rows"
  by (auto simp: np_asarray_def split: list.splits if_splits)

lemma np_asarray_uniform:
  "list_all (\<lambda>r. length r = n) rows \<Longrightarrow> np_asarray rows = Inr rows"
  by (cases rows) (auto simp: np_asarray_def list_all_iff)

lemma prepare_charges_cases:
  "prepare_charges tk self m =
     (if use_partial_charge self \<and> isl (probe_charges m)
      then (if AllChem_installed tk then Inr (ComputeGasteigerCharges tk m, [ComputeCharges])
            else Inl ImportError)
      else Inr (m, []))"
  by (auto simp: prepare_charges_def import_AllChem_def split: sum.splits)

lemma prepare_charges_frame:
  assumes "prepare_charges tk self m = Inr (m', evs)"
  shows "GetBonds m' = GetBonds m" and "length (GetAtoms m') = length (GetAtoms m)"
    and "HBondMatches m' = HBondMatches m"
  using assms
  by (auto simp: prepare_charges_def ComputeGasteigerCharges_def
      split: if_splits sum.splits)

lemma featurize_Inr:
  assumes "fst (featurize tk u self m) = Inr g"
  obtains m' evs where "prepare_charges tk self m = Inr (m', evs)"
    and "build_graph u self m' = Inr g"
    and "featurize tk u self m = (Inr g, m', evs @ map EncodeAtom [0..<length (GetAtoms m')])"
  using assms by (auto simp: featurize_def split: sum.splits prod.splits)

lemma featurize_cases:
  "featurize tk u self m =
     (if use_partial_charge self \<and> isl (probe_charges m)
      then (if AllChem_installed tk
            then (build_graph u self (ComputeGasteigerCharges tk m), ComputeGasteigerCharges tk m,
                  ComputeCharges # map EncodeAtom [0..<length (GetAtoms m)])
            else (Inl ImportError, m, []))
      else (build_graph u self m, m, map EncodeAtom [0..<length (GetAtoms m)]))"
  by (simp add: featurize_def prepare_charges_cases ComputeGasteigerCharges_def)

lemma build_graph_edge_index:
  assumes "build_graph u self m = Inr g"
  shows "edge_index g =
     [concat (map (\<lambda>b. [GetBeginAtomIdx b, GetEndAtomIdx b]) (GetBonds m)),
      concat (map (\<lambda>b. [GetEndAtomIdx b, GetBeginAtomIdx b]) (GetBonds m))]"
  using assms
  by (auto simp: build_graph_def edge_loop_eq Let_def split: sum.splits if_splits)

lemma build_graph_node_features:
  assumes "build_graph u self m = Inr g"
  shows "node_features g =
     map (\<lambda>a. construct_atom_feature u a (construct_hydrogen_bonding_info u m)
                (use_chirality self) (use_partial_charge self)) (GetAtoms m)"
  using assms
  by (auto simp: build_graph_def Let_def dest!: np_asarray_Inr split: sum.splits if_splits prod.splits)

lemma build_graph_edge_features:
  assumes "build_graph u self m = Inr g"
  shows "edge_features g =
     (if use_edges self
      then Some (concat (map (\<lambda>b. [construct_bond_feature u b, construct_bond_feature u b]) (GetBonds m)))
      else None)"
  using assms
  by (auto simp: build_graph_def Let_def bond_feature_loop_eq dest!: np_asarray_Inr
      split: sum.splits if_splits prod.splits)

text \<open>
  With the encoders of the spec every atom row has the width of the configuration and every
  bond row has width 11, so the array conversions succeed and the call returns unless the
  charge step raises.
\<close>

lemma one_hot_encode_length:
  "length (one_hot_encode v xs unk) = length xs + (if unk then 1 else 0)"
  by (simp add: one_hot_encode_def)

lemma spec_atom_feature_length:
  "length (construct_atom_feature molecule_feature_utils a hb uc upc) =
     30 + (if uc then 2 else 0) + (if upc then 1 else 0)"
  by (simp add: construct_atom_feature_def molecule_feature_utils_def one_hot_encode_length
      spec_atom_type_one_hot_def spec_atom_formal_charge_def spec_atom_hybridization_one_hot_def
      spec_atom_hydrogen_bonding_one_hot_def spec_atom_is_in_aromatic_one_hot_def
      spec_atom_total_degree_one_hot_def spec_atom_total_num_Hs_one_hot_def
      spec_atom_chirality_one_hot_def spec_atom_partial_charge_def
      split: option.splits charge.splits)

lemma spec_build_graph_returns:
  "\<exists>g. build_graph molecule_feature_utils self m = Inr g"
proof -
  let ?rows = "map (\<lambda>a. construct_atom_feature molecule_feature_utils a
                 (construct_hydrogen_bonding_info molecule_feature_utils m)
                 (use_chirality self) (use_partial_charge self)) (GetAtoms m)"
  have rows: "np_asarray ?rows = Inr ?rows"
    by (rule np_asarray_uniform
          [where n = "30 + (if use_chirality self then 2 else 0) + (if use_partial_charge self then 1 else 0)"])
       (simp add: list_all_iff spec_atom_feature_length)
  let ?fs = "bond_feature_loop molecule_feature_utils (GetBonds m) []"
  have len: "length (construct_bond_feature molecule_feature_utils b) = 11" for b
    by (simp add: construct_bond_feature_def molecule_feature_utils_def one_hot_encode_length
        spec_bond_type_one_hot_def spec_bond_stereo_one_hot_def)
  have fs: "np_asarray ?fs = Inr ?fs"
    by (rule np_asarray_uniform [where n = 11])
       (auto simp: list_all_iff bond_feature_loop_eq len)
  show ?thesis
    by (simp add: build_graph_def Let_def rows fs split: prod.splits)
qed

lemma spec_featurize_returns:
  assumes "use_partial_charge self \<Longrightarrow> AllChem_installed tk"
  shows "\<exists>g. fst (featurize tk molecule_feature_utils self m) = Inr g"
  using assms spec_build_graph_returns by (auto simp: featurize_cases)

lemma probe_after_compute:
  "GetAtoms m \<noteq> [] \<Longrightarrow> \<not> isl (probe_charges (ComputeGasteigerCharges tk m))"
  by (cases "GetAtoms m")
     (simp_all add: probe_charges_def GetAtomWithIdx_def GetProp_GasteigerCharge_def
        ComputeGasteigerCharges_def)

lemma compute_no_atoms:
  "GetAtoms m = [] \<Longrightarrow> ComputeGasteigerCharges tk m = m"
  by (simp add: ComputeGasteigerCharges_def)

section \<open>The running example\<close>

text \<open>
  Cyclobutane with \<open>use_edges\<close> set and the encoders of the spec: four rows of 30 numbers,
  an edge index of 2 by 8, eight edge rows of 11 numbers (the shapes of the class docstring,
  lines 123 to 131).
\<close>

lemma cyclobutane_featurize:
  "fst (featurize rdkit_full molecule_feature_utils (MolGraphConvFeaturizer_init True False False) cyclobutane)
   = Inr \<lparr>node_features = replicate 4 [1, 0, 0, 0, 0, 0, 0, 0, 0, 0, 0, 0, 0, 1, 0, 0, 0, 0, 0, 0, 0, 1, 0, 0, 0, 0, 1, 0, 0, 0],
      edge_index = [[0, 1, 1, 2, 2, 3, 3, 0], [1, 0, 2, 1, 3, 2, 0, 3]],
      edge_features = Some (replicate 8 [1, 0, 0, 0, 1, 0, 1, 0, 0, 0, 0])\<rparr>"
  by (simp add: featurize_def prepare_charges_def MolGraphConvFeaturizer_init_def build_graph_def
     cyclobutane_def molecule_feature_utils_def np_asarray_def construct_atom_feature_def
     construct_bond_feature_def ring_carbon_def ring_bond_def one_hot_encode_def
     spec_atom_type_one_hot_def spec_atom_formal_charge_def spec_atom_hybridization_one_hot_def
     spec_atom_hydrogen_bonding_one_hot_def spec_atom_is_in_aromatic_one_hot_def
     spec_atom_total_degree_one_hot_def spec_atom_total_num_Hs_one_hot_def
     spec_bond_type_one_hot_def spec_bond_stereo_one_hot_def numeral_2_eq_2 numeral_eq_Suc)

lemma probe_cyclobutane: "probe_charges cyclobutane = Inl KeyError"
  by (simp add: probe_charges_def GetAtomWithIdx_def GetProp_GasteigerCharge_def
      cyclobutane_def ring_carbon_def)

section \<open>The edge index of the sparse featurizer\<close>

text \<open>
  Claim C1. For every molecule with B bonds, whenever the sparse featurizer returns a graph,
  its edge index has exactly 2 rows of 2B entries each, and for the k-th bond (u, v) in the
  iteration order of the bonds, column 2k is the directed edge (u, v) and column 2k+1 is the
  reverse edge (v, u). This holds for every configuration, every implementation of the
  imported helpers and every RDKit installation.
\<close>

theorem sparse_edge_index:
  assumes "fst (featurize tk u self m) = Inr g"
  shows "length (edge_index g) = 2 \<and>
         length (edge_index g ! 0) = 2 * length (GetBonds m) \<and>
         length (edge_index g ! 1) = 2 * length (GetBonds m) \<and>
         (\<forall>k < length (GetBonds m).
            edge_index g ! 0 ! (2 * k) = GetBeginAtomIdx (GetBonds m ! k) \<and>
            edge_index g ! 1 ! (2 * k) = GetEndAtomIdx (GetBonds m ! k) \<and>
            edge_index g ! 0 ! (2 * k + 1) = GetEndAtomIdx (GetBonds m ! k) \<and>
            edge_index g ! 1 ! (2 * k + 1) = GetBeginAtomIdx (GetBonds m ! k))"
proof -
  from assms obtain m' evs where p: "prepare_charges tk self m = Inr (m', evs)"
    and b: "build_graph u self m' = Inr g"
    by (rule featurize_Inr)
  have bonds: "GetBonds m' = GetBonds m" using p by (rule prepare_charges_frame)
  have ei: "edge_index g =
     [concat (map (\<lambda>b. [GetBeginAtomIdx b, GetEndAtomIdx b]) (GetBonds m)),
      concat (map (\<lambda>b. [GetEndAtomIdx b, GetBeginAtomIdx b]) (GetBonds m))]"
    using build_graph_edge_index [OF b] bonds by simp
  show ?thesis
    by (simp add: ei length_concat_pairs concat_pairs_even concat_pairs_odd)
qed

text \<open>
  The theorem at cyclobutane: the call returns, the edge index is 2 by 8, and the second
  bond (1, 2) gives the columns 2 and 3, which are (1, 2) and (2, 1).
\<close>

theorem sparse_edge_index_witness:
  "\<exists>g. fst (featurize rdkit_full molecule_feature_utils
              (MolGraphConvFeaturizer_init True False False) cyclobutane) = Inr g \<and>
       length (edge_index g) = 2 \<and> length (edge_index g ! 0) = 8 \<and>
       length (edge_index g ! 1) = 8 \<and>
       edge_index g ! 0 ! 2 = 1 \<and> edge_index g ! 1 ! 2 = 2 \<and>
       edge_index g ! 0 ! 3 = 2 \<and> edge_index g ! 1 ! 3 = 1"
proof -
  obtain g where g: "fst (featurize rdkit_full molecule_feature_utils
       (MolGraphConvFeaturizer_init True False False) cyclobutane) = Inr g"
    using cyclobutane_featurize by blast
  have b: "length (GetBonds cyclobutane) = 4" "GetBonds cyclobutane ! 1 = ring_bond 1 2"
    by (simp_all add: cyclobutane_def)
  note t = sparse_edge_index [OF g]
  have "edge_index g ! 0 ! 2 = 1 \<and> edge_index g ! 1 ! 2 = 2 \<and>
        edge_index g ! 0 ! 3 = 2 \<and> edge_index g ! 1 ! 3 = 1"
    using t [THEN conjunct2, THEN conjunct2, THEN conjunct2, rule_format, of 1]
    by (simp add: cyclobutane_def ring_bond_def numeral_3_eq_3)
  then show ?thesis
    using g t by (simp add: b)
qed

section \<open>The node features of the sparse featurizer\<close>

text \<open>
  Claim C2. For every molecule, configuration and RDKit installation, with the encoders of
  the helper module as the spec gives them, the call either raises \<open>ImportError\<close> (partial
  charges asked for and the charge module missing) or returns a graph whose node-feature
  matrix has one row per atom, row i being the feature vector of the i-th atom in iteration
  order, and every row has the same length: 30, plus 2 (the chirality block over R and S)
  when \<open>use_chirality\<close> is set, plus 1 when \<open>use_partial_charge\<close> is set.
\<close>

theorem node_feature_matrix:
  "case featurize tk molecule_feature_utils self m of
     (Inl e, m', evs) \<Rightarrow> e = ImportError \<and> use_partial_charge self \<and> \<not> AllChem_installed tk
   | (Inr g, m', evs) \<Rightarrow>
       length (node_features g) = length (GetAtoms m) \<and>
       node_features g =
         map (\<lambda>a. construct_atom_feature molecule_feature_utils a (HBondMatches m)
                    (use_chirality self) (use_partial_charge self)) (GetAtoms m') \<and>
       list_all (\<lambda>row. length row = 30 + (if use_chirality self then 2 else 0)
                                       + (if use_partial_charge self then 1 else 0))
         (node_features g)"
proof -
  have *: "length (node_features g) = length (GetAtoms m') \<and>
       node_features g =
         map (\<lambda>a. construct_atom_feature molecule_feature_utils a (HBondMatches m')
                    (use_chirality self) (use_partial_charge self)) (GetAtoms m') \<and>
       list_all (\<lambda>row. length row = 30 + (if use_chirality self then 2 else 0)
                                       + (if use_partial_charge self then 1 else 0))
         (node_features g)"
    if "build_graph molecule_feature_utils self m' = Inr g" for m' g
    using build_graph_node_features [OF that]
    by (simp add: list_all_iff spec_atom_feature_length) (simp add: molecule_feature_utils_def)
  obtain g1 where g1: "build_graph molecule_feature_utils self m = Inr g1"
    using spec_build_graph_returns by blast
  obtain g2 where g2: "build_graph molecule_feature_utils self (ComputeGasteigerCharges tk m) = Inr g2"
    using spec_build_graph_returns by blast
  have c: "length (GetAtoms (ComputeGasteigerCharges tk m)) = length (GetAtoms m)"
      "HBondMatches (ComputeGasteigerCharges tk m) = HBondMatches m"
    by (simp_all add: ComputeGasteigerCharges_def)
  show ?thesis
    using *[OF g1] *[OF g2]
    by (simp add: featurize_cases g1 g2 c list_all_iff spec_atom_feature_length)
qed

text \<open>
  The theorem at cyclobutane with chirality and partial charges: the call returns four rows
  of 33 numbers.
\<close>

theorem node_feature_matrix_witness:
  "\<exists>g. fst (featurize rdkit_full molecule_feature_utils
              (MolGraphConvFeaturizer_init False True True) cyclobutane) = Inr g \<and>
       length (node_features g) = 4 \<and>
       list_all (\<lambda>row. length row = 33) (node_features g)"
proof -
  let ?self = "MolGraphConvFeaturizer_init False True True"
  obtain g where g: "fst (featurize rdkit_full molecule_feature_utils ?self cyclobutane) = Inr g"
    using spec_featurize_returns [of ?self rdkit_full] by (auto simp: rdkit_full_def)
  obtain r m' evs where r: "featurize rdkit_full molecule_feature_utils ?self cyclobutane = (r, m', evs)"
    by (cases "featurize rdkit_full molecule_feature_utils ?self cyclobutane")
  with g have "r = Inr g" by simp
  with node_feature_matrix [where tk = rdkit_full and self = ?self and m = cyclobutane] r
  have "length (node_features g) = length (GetAtoms cyclobutane) \<and>
        list_all (\<lambda>row. length row = 33) (node_features g)"
    by (auto simp: MolGraphConvFeaturizer_init_def)
  then show ?thesis using g by (auto simp: cyclobutane_def)
qed

section \<open>The edge features of the sparse featurizer\<close>

text \<open>
  Claim C3. For every molecule with B bonds, whenever the sparse featurizer returns a graph:
  if \<open>use_edges\<close> is false the graph has no edge features; if it is true the edge features
  have exactly 2B rows, and for every bond index k the rows 2k and 2k+1 are both the feature
  vector of bond k (so they are identical). This holds for every implementation of the
  imported helpers.
\<close>

theorem edge_features_duplicated:
  assumes "fst (featurize tk u self m) = Inr g"
  shows "(\<not> use_edges self \<longrightarrow> edge_features g = None) \<and>
         (use_edges self \<longrightarrow>
            (\<exists>fs. edge_features g = Some fs \<and> length fs = 2 * length (GetBonds m) \<and>
               (\<forall>k < length (GetBonds m).
                  fs ! (2 * k) = construct_bond_feature u (GetBonds m ! k) \<and>
                  fs ! (2 * k + 1) = construct_bond_feature u (GetBonds m ! k))))"
proof -
  from assms obtain m' evs where p: "prepare_charges tk self m = Inr (m', evs)"
    and b: "build_graph u self m' = Inr g"
    by (rule featurize_Inr)
  have bonds: "GetBonds m' = GetBonds m" using p by (rule prepare_charges_frame)
  show ?thesis
    using build_graph_edge_features [OF b]
    by (simp add: bonds length_concat_pairs concat_pairs_even concat_pairs_odd)
qed

text \<open>
  The theorem at cyclobutane, with and without \<open>use_edges\<close>: no edge features without,
  eight rows with, and the rows 2 and 3 are the feature vector of the second bond.
\<close>

theorem edge_features_duplicated_witness:
  "\<exists>g h fs.
     fst (featurize rdkit_full molecule_feature_utils
            (MolGraphConvFeaturizer_init True False False) cyclobutane) = Inr g \<and>
     fst (featurize rdkit_full molecule_feature_utils
            (MolGraphConvFeaturizer_init False False False) cyclobutane) = Inr h \<and>
     edge_features h = None \<and> edge_features g = Some fs \<and> length fs = 8 \<and>
     fs ! 2 = construct_bond_feature molecule_feature_utils (ring_bond 1 2) \<and>
     fs ! 3 = construct_bond_feature molecule_feature_utils (ring_bond 1 2)"
proof -
  obtain g where g: "fst (featurize rdkit_full molecule_feature_utils
       (MolGraphConvFeaturizer_init True False False) cyclobutane) = Inr g"
    using cyclobutane_featurize by blast
  obtain h where h: "fst (featurize rdkit_full molecule_feature_utils
       (MolGraphConvFeaturizer_init False False False) cyclobutane) = Inr h"
    using spec_featurize_returns [of "MolGraphConvFeaturizer_init False False False" rdkit_full]
    by (auto simp: MolGraphConvFeaturizer_init_def)
  have b: "length (GetBonds cyclobutane) = 4" by (simp add: cyclobutane_def)
  from edge_features_duplicated [OF h] have hn: "edge_features h = None"
    by (simp add: MolGraphConvFeaturizer_init_def)
  from edge_features_duplicated [OF g] obtain fs where fs: "edge_features g = Some fs"
      "length fs = 2 * length (GetBonds cyclobutane)"
      "\<forall>k < length (GetBonds cyclobutane).
          fs ! (2 * k) = construct_bond_feature molecule_feature_utils (GetBonds cyclobutane ! k) \<and>
          fs ! (2 * k + 1) = construct_bond_feature molecule_feature_utils (GetBonds cyclobutane ! k)"
    by (auto simp: MolGraphConvFeaturizer_init_def)
  have "fs ! 2 = construct_bond_feature molecule_feature_utils (ring_bond 1 2) \<and>
        fs ! 3 = construct_bond_feature molecule_feature_utils (ring_bond 1 2)"
    using fs(3) [rule_format, of 1] by (simp add: cyclobutane_def numeral_3_eq_3)
  then show ?thesis using g h hn fs(1,2) b by auto
qed

section \<open>The partial charges\<close>

text \<open>
  Claim C4. When \<open>use_partial_charge\<close> is set and the molecule carries no computed charges
  (the probe of line 180 fails: atom 0 has no \<^verbatim>\<open>_GasteigerCharge\<close>, or there is no atom
  0), then with the charge module installed the run calls the charge computation exactly
  once, as its first step, before any atom is encoded, and the graph is built from the
  molecule with the charges written; with the charge module missing the call raises
  \<open>ImportError\<close> and encodes no atom.
\<close>

theorem partial_charges_computed_once:
  assumes "use_partial_charge self" and "probe_charges m = Inl e"
  shows "(AllChem_installed tk \<longrightarrow>
            snd (snd (featurize tk u self m)) =
              ComputeCharges # map EncodeAtom [0..<length (GetAtoms m)] \<and>
            count_list (snd (snd (featurize tk u self m))) ComputeCharges = 1 \<and>
            fst (snd (featurize tk u self m)) = ComputeGasteigerCharges tk m \<and>
            fst (featurize tk u self m) = build_graph u self (ComputeGasteigerCharges tk m)) \<and>
         (\<not> AllChem_installed tk \<longrightarrow>
            fst (featurize tk u self m) = Inl ImportError \<and>
            snd (snd (featurize tk u self m)) = [])"
proof -
  have "count_list (map EncodeAtom xs) ComputeCharges = 0" for xs
    by (induction xs) simp_all
  then show ?thesis
    using assms by (simp add: featurize_cases)
qed

text \<open>
  The theorem at cyclobutane, which carries no charges: one computation followed by the
  four atoms with the module installed, \<open>ImportError\<close> without it.
\<close>

theorem partial_charges_computed_once_witness:
  "use_partial_charge (MolGraphConvFeaturizer_init False False True) \<and>
   probe_charges cyclobutane = Inl KeyError \<and>
   snd (snd (featurize rdkit_full molecule_feature_utils
               (MolGraphConvFeaturizer_init False False True) cyclobutane)) =
     [ComputeCharges, EncodeAtom 0, EncodeAtom 1, EncodeAtom 2, EncodeAtom 3] \<and>
   fst (featurize rdkit_without_AllChem molecule_feature_utils
          (MolGraphConvFeaturizer_init False False True) cyclobutane) = Inl ImportError"
proof -
  let ?self = "MolGraphConvFeaturizer_init False False True"
  have u: "use_partial_charge ?self" by (simp add: MolGraphConvFeaturizer_init_def)
  have n: "[0..<length (GetAtoms cyclobutane)] = [0, 1, 2, 3]"
    by (simp add: cyclobutane_def upt_rec)
  from partial_charges_computed_once [OF u probe_cyclobutane, where tk = rdkit_full and u = molecule_feature_utils]
       partial_charges_computed_once [OF u probe_cyclobutane, where tk = rdkit_without_AllChem and u = molecule_feature_utils]
  show ?thesis
    using u probe_cyclobutane by (simp add: n rdkit_full_def rdkit_without_AllChem_def)
qed

section \<open>Featurizing twice\<close>

text \<open>
  Claim C9. Featurization is deterministic. The model is a function of the installation,
  the helpers, the configuration and the molecule, so equal inputs give equal outputs; the
  call changes the molecule in place (it may write the charges), and the theorem is about
  the second of two calls on the same molecule object: for every configuration it returns
  or raises exactly what the first call did, so the node-feature, edge-index and
  edge-feature arrays are identical.
\<close>

theorem featurize_repeatable:
  "fst (featurize tk u self (fst (snd (featurize tk u self m)))) = fst (featurize tk u self m)"
proof (cases "use_partial_charge self \<and> isl (probe_charges m) \<and> AllChem_installed tk")
  case False
  then show ?thesis by (auto simp: featurize_cases)
next
  case True
  show ?thesis
  proof (cases "GetAtoms m = []")
    case True
    then show ?thesis by (simp add: featurize_cases compute_no_atoms)
  next
    case False
    from probe_after_compute [OF this]
    show ?thesis using True by (simp add: featurize_cases)
  qed
qed

text \<open>
  The theorem at cyclobutane with partial charges: the first call changes the molecule, and
  the second call on the changed molecule gives the same result.
\<close>

theorem featurize_repeatable_witness:
  "fst (featurize rdkit_full molecule_feature_utils (MolGraphConvFeaturizer_init True False True)
          (fst (snd (featurize rdkit_full molecule_feature_utils
                       (MolGraphConvFeaturizer_init True False True) cyclobutane)))) =
   fst (featurize rdkit_full molecule_feature_utils (MolGraphConvFeaturizer_init True False True)
          cyclobutane) \<and>
   fst (snd (featurize rdkit_full molecule_feature_utils
               (MolGraphConvFeaturizer_init True False True) cyclobutane)) \<noteq> cyclobutane"
proof -
  have "GetAtoms (ComputeGasteigerCharges rdkit_full cyclobutane) \<noteq> GetAtoms cyclobutane"
    by (simp add: ComputeGasteigerCharges_def cyclobutane_def ring_carbon_def)
  then have "ComputeGasteigerCharges rdkit_full cyclobutane \<noteq> cyclobutane" by auto
  then show ?thesis
    using featurize_repeatable [of rdkit_full molecule_feature_utils
        "MolGraphConvFeaturizer_init True False True" cyclobutane]
    by (simp add: featurize_cases probe_cyclobutane MolGraphConvFeaturizer_init_def rdkit_full_def)
qed

section \<open>The path-aware featurizer: what a call does\<close>

text \<open>
  Claim C10. For every input molecule (and every featurizer object, helper implementation
  and binding of the module's globals), \<^verbatim>\<open>PAGTNFeaturizer._featurize\<close> raises and never
  returns a graph: \<^verbatim>\<open>PAGTNAtomFeaturizer\<close> is declared with one parameter and is called
  through the instance with two arguments, which is a \<open>TypeError\<close>. In the module as
  written the names the methods read are not bound either: the body of
  \<^verbatim>\<open>PAGTNAtomFeaturizer\<close> raises \<open>NameError\<close> on \<^verbatim>\<open>self\<close> when it is called with one
  argument, and it still fails if \<^verbatim>\<open>self\<close> alone were bound (the valence encoders are
  not); \<^verbatim>\<open>PAGTNBondFeaturizer\<close> raises \<open>NameError\<close> on \<^verbatim>\<open>utils\<close>; the ring block raises
  \<open>NameError\<close> on \<^verbatim>\<open>one_hot_encoding\<close>, so \<^verbatim>\<open>bond_features\<close> never returns.
\<close>

theorem PAGTN_featurize_raises:
  "PAGTN_featurize g u self m = Inl TypeError \<and>
   PAGTNAtomFeaturizer module_globals u [x] = Inl (NameError ''self'') \<and>
   isl (PAGTNAtomFeaturizer (module_globals\<lparr>g_self := Some self\<rparr>) u args) \<and>
   PAGTNBondFeaturizer module_globals self m = Inl (NameError ''utils'') \<and>
   ring_features module_globals self ring_info = Inl (NameError ''one_hot_encoding'') \<and>
   isl (bond_features module_globals self m path_atoms ring_info)"
proof -
  have 1: "PAGTN_featurize g u self m = Inl TypeError"
    by (simp add: PAGTN_featurize_def bind_err_def)
  have 2: "PAGTNAtomFeaturizer module_globals u [x] = Inl (NameError ''self'')"
    by (simp add: module_globals_def lookup_global_def bind_err_def)
  have 3: "isl (PAGTNAtomFeaturizer (module_globals\<lparr>g_self := Some self\<rparr>) u args)"
  proof (cases args)
    case Nil
    then show ?thesis by simp
  next
    case (Cons y ys)
    then show ?thesis
      by (cases ys)
         (simp_all add: module_globals_def lookup_global_def bind_err_def Let_def
            split: sum.splits)
  qed
  have 4: "PAGTNBondFeaturizer module_globals self m = Inl (NameError ''utils'')"
    by (simp add: PAGTNBondFeaturizer_def module_globals_def lookup_global_def bind_err_def)
  have 5: "ring_features module_globals self ring_info = Inl (NameError ''one_hot_encoding'')"
    by (simp add: ring_features_def module_globals_def lookup_global_def bind_err_def)
  have 6: "isl (bond_features module_globals self m path_atoms ring_info)"
    by (simp add: bond_features_def bind_err_def Let_def 5 split: sum.splits)
  from 1 2 3 4 5 6 show ?thesis by blast
qed

text \<open>
  The theorem at a featurizer built by \<^verbatim>\<open>__init__\<close> and cyclobutane.
\<close>

theorem PAGTN_featurize_raises_witness:
  "\<exists>self. PAGTNFeaturizer_init (Some dgllife_example) 5 = Inr self \<and>
     PAGTN_featurize module_globals molecule_feature_utils self cyclobutane = Inl TypeError \<and>
     PAGTNBondFeaturizer module_globals self cyclobutane = Inl (NameError ''utils'')"
proof -
  obtain self where s: "PAGTNFeaturizer_init (Some dgllife_example) 5 = Inr self"
    by (simp add: PAGTNFeaturizer_init_def)
  show ?thesis
    using s PAGTN_featurize_raises [of module_globals molecule_feature_utils self cyclobutane]
    by blast
qed

section \<open>The path-aware featurizer: pairs with no path\<close>

text \<open>
  The loop itself treats a pair with no entry in the path dictionary as the spec says: it
  appends a zero vector of width 7 * max_length + 7 and goes on. If \<^verbatim>\<open>utils\<close> were
  bound and no pair had a path, the method would return the index of all ordered pairs in
  row-major order and one zero row per pair.
\<close>

lemma pair_loop_no_path:
  assumes "list_all (\<lambda>p. paths_dict p = None) pairs"
  shows "pair_loop g self m paths_dict rings_dict pairs src dest feats =
     Inr (src @ map fst pairs, dest @ map snd pairs,
          feats @ replicate (length pairs) (replicate (7 * max_length self + 7) 0))"
  using assms
proof (induction pairs arbitrary: src dest feats)
  case Nil
  then show ?case by simp
next
  case (Cons p ps)
  obtain i j where p: "p = (i, j)" by (cases p)
  from Cons.prems have "paths_dict (i, j) = None" and "list_all (\<lambda>p. paths_dict p = None) ps"
    by (simp_all add: p)
  then show ?case
    by (simp add: p Cons.IH replicate_app_Cons_same)
qed

lemma PAGTNBondFeaturizer_no_paths:
  assumes "g_utils g = Some utils"
    and "compute_all_pairs_shortest_path utils m = Inr (\<lambda>p. None)"
    and "compute_pairwise_ring_info utils m = Inr rings_dict"
  shows "PAGTNBondFeaturizer g self m =
     Inr ([map fst (List.product [0..<length (GetAtoms m)] [0..<length (GetAtoms m)]),
           map snd (List.product [0..<length (GetAtoms m)] [0..<length (GetAtoms m)])],
          replicate (length (GetAtoms m) * length (GetAtoms m))
            (replicate (7 * max_length self + 7) 0))"
proof -
  let ?n = "length (GetAtoms m)"
  let ?pairs = "List.product [0..<?n] [0..<?n]"
  have loop: "pair_loop g self m (\<lambda>p. None) rings_dict ?pairs [] [] [] =
     Inr (map fst ?pairs, map snd ?pairs,
          replicate (?n * ?n) (replicate (7 * max_length self + 7) 0))"
    using pair_loop_no_path [of "\<lambda>p. None" ?pairs g self m rings_dict "[]" "[]" "[]"]
    by (simp add: list_all_iff)
  have arr: "np_asarray (replicate (?n * ?n) (replicate (7 * max_length self + 7) (0::real))) =
     Inr (replicate (?n * ?n) (replicate (7 * max_length self + 7) 0))"
    by (rule np_asarray_uniform [where n = "7 * max_length self + 7"]) (simp add: list_all_iff)
  show ?thesis
    by (simp add: PAGTNBondFeaturizer_def Let_def bind_err_def lookup_global_def assms loop arr)
qed

text \<open>
  Claim C5, at an input where it fails. The claim says that for an atom pair with no
  shortest path the call does not raise and emits an all-zero vector of width
  7 * max_length + 7. In the module as written, on two methane molecules (no bond, so no
  path between any pair), \<^verbatim>\<open>PAGTNBondFeaturizer\<close> raises \<open>NameError\<close> on \<^verbatim>\<open>utils\<close> at
  line 330, before the loop is entered.
\<close>

theorem no_path_pairs_raise:
  "bind_err (PAGTNFeaturizer_init (Some dgllife_example) 5)
     (\<lambda>self. PAGTNBondFeaturizer module_globals self two_methanes) = Inl (NameError ''utils'')"
  by (simp add: PAGTNFeaturizer_init_def bind_err_def PAGTNBondFeaturizer_def module_globals_def
      lookup_global_def)

section \<open>The path-aware featurizer: the maximum path length\<close>

lemma PAGTNFeaturizer_init_max_length:
  "PAGTNFeaturizer_init installed m = Inr self \<Longrightarrow> max_length self = 5"
  by (auto simp: PAGTNFeaturizer_init_def split: option.splits)

text \<open>
  Claim C6, at an input where it fails. The claim says that the constructor argument is the
  truncation bound. \<^verbatim>\<open>PAGTNFeaturizer(max_length=3)\<close> stores 5: line 256 assigns the
  constant, not the parameter.
\<close>

theorem max_length_argument_ignored:
  "map_sum id max_length (PAGTNFeaturizer_init (Some dgllife_example) 3) = Inr 5"
  by (simp add: PAGTNFeaturizer_init_def)

section \<open>The path-aware featurizer: the position indicator\<close>

lemma one_hot_nth:
  "i < n \<Longrightarrow> k < n \<Longrightarrow> (replicate n (0::real))[i := 1] ! k = (if k = i then 1 else 0)"
  by (auto simp: nth_list_update)

lemma sequence_err_length: "sequence_err xs = Inr vs \<Longrightarrow> length vs = length xs"
  by (induction xs arbitrary: vs) (auto split: sum.splits)

text \<open>
  When \<^verbatim>\<open>bond_features\<close> returns, its result is the path blocks, then the position
  indicator of lines 298 to 301, then the ring block.
\<close>

lemma bond_features_layout:
  assumes "bond_features g self m path_atoms ring_info = Inr f"
  shows "\<exists>blocks rfeat. length blocks = max_length self \<and>
           f = concat blocks @ position_feature (max_length self) (length path_atoms) @ rfeat"
  using assms unfolding bond_features_def Let_def bind_err_def
  by (fastforce split: sum.splits dest: sequence_err_length)

text \<open>
  Claim C7 as stated fails: the set slot is not min(path length, L+1). With L = 5 and a
  path of 5 atoms (4 bonds) the indicator has slot 6 set, where min(5, 6) = 5 and
  min(4, 6) = 4.
\<close>

theorem position_slot_counterexample:
  "position_feature 5 5 = [0, 0, 0, 0, 0, 0, 1] \<and>
   position_feature 5 5 \<noteq> (replicate (5 + 2) 0)[min 5 (5 + 1) := 1] \<and>
   position_feature 5 5 \<noteq> (replicate (5 + 2) 0)[min 4 (5 + 1) := 1]"
  by (simp add: position_feature_def position_index_def numeral_eq_Suc)

text \<open>
  Claim C7, amended. For a path of p atoms (\<^verbatim>\<open>p = len(path_atoms)\<close>) and maximum length
  L, the position indicator has L + 2 slots, exactly one of them set to 1 and the others 0;
  the set slot has index min(p, L + 1), except that a path of exactly L atoms sets slot
  L + 1 (the code clamps when p + 1 > L).
\<close>

theorem position_slot:
  "length (position_feature L p) = L + 2 \<and>
   position_index L p = (if p = L then L + 1 else min p (L + 1)) \<and>
   position_index L p < L + 2 \<and>
   (\<forall>k < L + 2. position_feature L p ! k = (if k = position_index L p then 1 else 0))"
proof -
  have len: "length (position_feature L p) = L + 2"
    unfolding position_feature_def by (simp only: length_list_update length_replicate)
  have idx: "position_index L p = (if p = L then L + 1 else min p (L + 1))"
    by (simp add: position_index_def)
  have bound: "position_index L p < L + 2"
    by (simp add: position_index_def)
  have "position_feature L p ! k = (if k = position_index L p then 1 else 0)" if "k < L + 2" for k
    unfolding position_feature_def using bound that by (rule one_hot_nth)
  with len idx bound show ?thesis by blast
qed

text \<open>
  The theorem at L = 5: a path of 3 atoms sets slot 3, paths of 5 and of 9 atoms set slot 6.
\<close>

theorem position_slot_witness:
  "length (position_feature 5 3) = 7 \<and> position_index 5 3 = 3 \<and>
   position_feature 5 3 ! 3 = 1 \<and> position_feature 5 3 ! 6 = 0 \<and>
   position_index 5 5 = 6 \<and> position_feature 5 5 ! 6 = 1 \<and> position_feature 5 5 ! 5 = 0 \<and>
   position_index 5 9 = 6"
proof -
  have a: "(3::nat) < 5 + 2" "(6::nat) < 5 + 2" "(5::nat) < 5 + 2" by simp_all
  note t3 = position_slot [of 5 3] and t5 = position_slot [of 5 5] and t9 = position_slot [of 5 9]
  have "position_feature 5 3 ! 3 = 1" "position_feature 5 3 ! 6 = 0"
    using t3 [THEN conjunct2, THEN conjunct2, THEN conjunct2, rule_format, OF a(1)]
          t3 [THEN conjunct2, THEN conjunct2, THEN conjunct2, rule_format, OF a(2)]
          t3 [THEN conjunct2, THEN conjunct1]
    by simp_all
  moreover have "position_feature 5 5 ! 6 = 1" "position_feature 5 5 ! 5 = 0"
    using t5 [THEN conjunct2, THEN conjunct2, THEN conjunct2, rule_format, OF a(2)]
          t5 [THEN conjunct2, THEN conjunct2, THEN conjunct2, rule_format, OF a(3)]
          t5 [THEN conjunct2, THEN conjunct1]
    by simp_all
  ultimately show ?thesis
    using t3 t5 t9 by simp
qed

section \<open>The path-aware featurizer: the ring block\<close>

text \<open>
  Claim C8, at an input where it fails. The claim says that for a pair that shares no ring
  the ring block is a False flag followed by an all-false vector, built without raising
  (the comment at line 310 says the same). In the module as written, for the two atoms of
  ethane with an empty ring list, \<^verbatim>\<open>bond_features\<close> encodes the path, then reads
  \<^verbatim>\<open>one_hot_encoding\<close> at line 312 and raises \<open>NameError\<close>: the name is imported inside
  \<^verbatim>\<open>__init__\<close> only.
\<close>

theorem no_ring_block_raises:
  "bind_err (PAGTNFeaturizer_init (Some dgllife_example) 5)
     (\<lambda>self. bond_features module_globals self ethane [0, 1] []) =
   Inl (NameError ''one_hot_encoding'')"
  by (simp add: PAGTNFeaturizer_init_def bind_err_def bond_features_def ring_features_def
      module_globals_def lookup_global_def ConcatFeaturizer_def dgllife_example_def
      GetBondBetweenAtoms_def ethane_def Let_def upt_rec)

end
